theory Spec2Isabelle
  imports Main
begin

section \<open>Data model of the account views (accounts/views.py)\<close>

text \<open>
  Time is the UTC clock read by \<open>timezone.now()\<close>, counted in microseconds (the
  resolution of a Python \<open>datetime\<close>); \<open>timedelta(hours=h)\<close> is a number of
  microseconds.
\<close>

type_synonym time = int

definition timedelta_hours :: "int \<Rightarrow> int" where
  "timedelta_hours h = h * 3600000000"

definition timedelta_minutes :: "int \<Rightarrow> int" where
  "timedelta_minutes m = m * 60000000"

text \<open>The exceptions that the views raise, catch or let escape.\<close>

datatype exn =
    ValidationError
  | DoesNotExist
  | MultipleObjectsReturned
  | TokenError
  | TypeError
  | UnboundLocalError
  | AttributeError
  | NotAuthenticated

text \<open>
  Modelled from the spec: the user model is not among the sources. An account has a
  unique e-mail identity, a password hash and the \<open>is_verified\<close> flag; \<open>uid\<close> is its
  primary key and \<open>profile\<close> stands for the remaining profile fields.
\<close>

record account =
  uid :: nat
  email :: string
  password :: string
  is_verified :: bool
  profile :: string

text \<open>
  Modelled from the spec: the models \<open>EmailVerificationToken\<close> and
  \<open>PasswordResetToken\<close> are not among the sources. A row holds the random token
  string, the owning account (a foreign key) and the creation timestamp; \<open>pk\<close> is the
  row's primary key.
\<close>

record ott_row =
  pk :: nat
  token :: string
  user :: nat
  created_at :: time

text \<open>
  Modelled from the spec: the Token Codec (section 4.1). A bearer token carries its
  kind, a unique token identifier, the subject identity and its expiry. On the wire a
  token is a string: \<open>Encoded p\<close> is the string that verifies under the server's key
  and decodes to the payload \<open>p\<close>; \<open>Junk s\<close> is any other string \<open>s\<close>.
\<close>

datatype token_type = Access | Refresh

record payload =
  token_type :: token_type
  jti :: nat
  user_id :: nat
  exp :: time

datatype token_str = Encoded payload | Junk string

text \<open>
  The storage the views work on: the account table, the two one-time token tables and
  the revocation ledger (outstanding and blacklisted token identifiers). \<open>jti_counter\<close>
  is the source of fresh token identifiers; the two lifetimes are the policy constants
  of the codec, which the sources do not contain.
\<close>

record state =
  users :: "account list"
  email_verification_tokens :: "ott_row list"
  password_reset_tokens :: "ott_row list"
  outstanding :: "(nat \<times> nat) list"
  blacklisted :: "nat set"
  jti_counter :: nat
  access_lifetime :: int
  refresh_lifetime :: int

text \<open>\<open>request.user\<close>: the authenticated account, or the anonymous user.\<close>

datatype request_user = AnonymousUser | AuthUser account

text \<open>
  A response is a status code and a body. The success envelope is
  \<open>{message, data}\<close>, the error envelope \<open>{error_code, error_message, details}\<close>;
  \<open>details\<close> keeps the exception that the source renders with \<open>str\<close> (\<open>None\<close> when
  the caller passes none).
\<close>

datatype field = TokenField token_str | TextField string

datatype body =
    SuccessBody string "(string \<times> field) list"
  | ErrorBody string string "exn option"
  | NoBody

record response =
  status :: nat
  body :: body

text \<open>
  What a view does with a request: it returns a response, lets an exception escape, or
  (only where a retry loop is involved) has not returned.
\<close>

datatype outcome = Returned response | Raised exn | NoReturn

definition HTTP_200_OK :: nat where "HTTP_200_OK = 200"
definition HTTP_204_NO_CONTENT :: nat where "HTTP_204_NO_CONTENT = 204"
definition HTTP_400_BAD_REQUEST :: nat where "HTTP_400_BAD_REQUEST = 400"
definition HTTP_404_NOT_FOUND :: nat where "HTTP_404_NOT_FOUND = 404"
definition HTTP_500_INTERNAL_SERVER_ERROR :: nat where "HTTP_500_INTERNAL_SERVER_ERROR = 500"

definition handle_exception_response :: "string \<Rightarrow> string \<Rightarrow> exn option \<Rightarrow> nat \<Rightarrow> response" where
  "handle_exception_response error_code error_message details status_response =
     \<lparr>status = status_response, body = ErrorBody error_code error_message details\<rparr>"

definition handle_success_response :: "string \<Rightarrow> (string \<times> field) list \<Rightarrow> response" where
  "handle_success_response message data =
     \<lparr>status = HTTP_200_OK, body = SuccessBody message data\<rparr>"

section \<open>Storage operations\<close>

text \<open>
  \<open>Model.objects.get(...)\<close>: the one row that satisfies the lookup; \<open>DoesNotExist\<close>
  when there is none, \<open>MultipleObjectsReturned\<close> when there are several.
\<close>

definition objects_get :: "('r \<Rightarrow> bool) \<Rightarrow> 'r list \<Rightarrow> exn + 'r" where
  "objects_get P rows =
     (case filter P rows of
        [] \<Rightarrow> Inl DoesNotExist
      | [r] \<Rightarrow> Inr r
      | _ \<Rightarrow> Inl MultipleObjectsReturned)"

text \<open>\<open>row.delete()\<close>: removes the row with that primary key.\<close>

definition delete_row :: "ott_row \<Rightarrow> ott_row list \<Rightarrow> ott_row list" where
  "delete_row r rows = filter (\<lambda>x. pk x \<noteq> pk r) rows"

text \<open>\<open>Model.objects.create(token=..., user=...)\<close>: a new row with a fresh primary key.\<close>

definition fresh_pk :: "ott_row list \<Rightarrow> nat" where
  "fresh_pk rows = Suc (fold max (map pk rows) 0)"

definition objects_create :: "time \<Rightarrow> string \<Rightarrow> nat \<Rightarrow> ott_row list \<Rightarrow> ott_row list" where
  "objects_create now t u rows =
     rows @ [\<lparr>pk = fresh_pk rows, token = t, user = u, created_at = now\<rparr>]"

text \<open>\<open>user.save()\<close>: writes the account over the stored one with the same primary key,
  or inserts it when there is none.\<close>

definition save_user :: "account \<Rightarrow> account list \<Rightarrow> account list" where
  "save_user u us =
     (if list_ex (\<lambda>a. uid a = uid u) us
      then map (\<lambda>a. if uid a = uid u then u else a) us
      else us @ [u])"

text \<open>The account a token row's foreign key points to.\<close>

definition related_user :: "state \<Rightarrow> ott_row \<Rightarrow> account option" where
  "related_user s r = find (\<lambda>a. uid a = user r) (users s)"

text \<open>
  Modelled from the spec: the Credential Hasher, a one-way hash with a verify
  operation. The hash is kept symbolic: the raw password under a marker.
\<close>

definition make_password :: "string \<Rightarrow> string" where
  "make_password raw = ''hash$'' @ raw"

definition check_password :: "string \<Rightarrow> string \<Rightarrow> bool" where
  "check_password raw hashed = (hashed = make_password raw)"

definition set_password :: "account \<Rightarrow> string \<Rightarrow> account" where
  "set_password u raw = u\<lparr>password := make_password raw\<rparr>"

section \<open>Token Codec and Revocation Ledger\<close>

text \<open>
  Modelled from the spec: \<open>RefreshToken.for_user\<close> is the codec's \<open>issue\<close> for a
  refresh token (fresh identifier, expiry = issued-at + ttl) followed by the ledger's
  \<open>record\<close>, which marks the identifier as outstanding for the subject.
\<close>

definition for_user :: "state \<Rightarrow> time \<Rightarrow> account \<Rightarrow> payload \<times> state" where
  "for_user s now u =
     (let p = \<lparr>token_type = Refresh, jti = jti_counter s, user_id = uid u,
               exp = now + refresh_lifetime s\<rparr>
      in (p, s\<lparr>outstanding := outstanding s @ [(jti p, uid u)],
               jti_counter := Suc (jti_counter s)\<rparr>))"

text \<open>
  Modelled from the spec: \<open>refresh.access_token\<close> is the codec's
  \<open>deriveAccessFromRefresh\<close>: a fresh access token for the same subject. Only the
  source of fresh identifiers advances.
\<close>

definition access_token :: "state \<Rightarrow> time \<Rightarrow> payload \<Rightarrow> payload \<times> state" where
  "access_token s now r =
     (\<lparr>token_type = Access, jti = jti_counter s, user_id = user_id r,
       exp = now + access_lifetime s\<rparr>,
      s\<lparr>jti_counter := Suc (jti_counter s)\<rparr>)"

text \<open>
  Modelled from the spec: validating a token string is the codec's \<open>decode\<close> together
  with the ledger's \<open>isBlacklisted\<close>, which every credential-validating operation
  queries: \<open>TokenError\<close> for a string that does not verify, for a token of the other
  kind, for one whose expiry lies before the current time, and for a blacklisted
  identifier. Constructing \<open>RefreshToken(s)\<close> is \<open>decode\<close> for the kind \<open>Refresh\<close>.
\<close>

definition decode :: "state \<Rightarrow> time \<Rightarrow> token_type \<Rightarrow> token_str \<Rightarrow> exn + payload" where
  "decode s now kind t =
     (case t of
        Junk _ \<Rightarrow> Inl TokenError
      | Encoded p \<Rightarrow>
          if token_type p \<noteq> kind then Inl TokenError
          else if now > exp p then Inl TokenError
          else if jti p \<in> blacklisted s then Inl TokenError
          else Inr p)"

text \<open>Modelled from the spec: the ledger's \<open>blacklist\<close>, idempotent, and safe on
  identifiers it has not recorded.\<close>

definition blacklist :: "state \<Rightarrow> payload \<Rightarrow> state" where
  "blacklist s p = s\<lparr>blacklisted := insert (jti p) (blacklisted s)\<rparr>"

text \<open>
  The library's \<open>AccessToken\<close> class is not tied to the ledger. Constructing
  \<open>AccessToken(s)\<close> verifies the string, the kind and the expiry, and does not consult
  the blacklist; and the class has no \<open>blacklist\<close> method, so \<open>token.blacklist()\<close> on an
  access token raises \<open>AttributeError\<close> before anything is recorded.
\<close>

definition AccessToken :: "time \<Rightarrow> token_str \<Rightarrow> exn + payload" where
  "AccessToken now t =
     (case t of
        Junk _ \<Rightarrow> Inl TokenError
      | Encoded p \<Rightarrow>
          if token_type p \<noteq> Access then Inl TokenError
          else if now > exp p then Inl TokenError
          else Inr p)"

text \<open>Python's truth value of a query parameter: absent and empty are false.\<close>

fun truthy :: "token_str option \<Rightarrow> bool" where
  "truthy None = False"
| "truthy (Some (Junk s)) = (s \<noteq> [])"
| "truthy (Some (Encoded p)) = True"

section \<open>The views\<close>

text \<open>
  Modelled from the spec: \<open>EmailVerificationSerializer\<close> is not among the sources; it
  is taken to require a non-empty token string.
\<close>

definition EmailVerificationSerializer :: "string option \<Rightarrow> exn + string" where
  "EmailVerificationSerializer t =
     (case t of None \<Rightarrow> Inl ValidationError
      | Some x \<Rightarrow> if x = [] then Inl ValidationError else Inr x)"

text \<open>
  \<open>verify_email\<close>. The serializer check stands before the \<open>try\<close>, so its exception
  escapes. Inside the \<open>try\<close>: look the row up by token string; within 24 hours of its
  creation set the flag, save, delete the row and answer with a fresh token pair;
  otherwise answer \<open>EXPIRED_TOKEN\<close>.
\<close>

definition verify_email :: "state \<Rightarrow> time \<Rightarrow> string option \<Rightarrow> outcome \<times> state" where
  "verify_email s now token_param =
     (case EmailVerificationSerializer token_param of
        Inl e \<Rightarrow> (Raised e, s)
      | Inr t \<Rightarrow>
          (case objects_get (\<lambda>r. token r = t) (email_verification_tokens s) of
             Inl DoesNotExist \<Rightarrow>
               (Returned (handle_exception_response ''INVALID_TOKEN''
                  ''Invalid or expired verification token.'' None HTTP_400_BAD_REQUEST), s)
           | Inl e \<Rightarrow>
               (Returned (handle_exception_response ''INTERNAL_SERVER_ERROR''
                  ''An internal server error occurred'' (Some e)
                  HTTP_500_INTERNAL_SERVER_ERROR), s)
           | Inr email_verification_token \<Rightarrow>
               if created_at email_verification_token + timedelta_hours 24 > now then
                 (case related_user s email_verification_token of
                    None \<Rightarrow>
                      (Returned (handle_exception_response ''INTERNAL_SERVER_ERROR''
                         ''An internal server error occurred'' (Some DoesNotExist)
                         HTTP_500_INTERNAL_SERVER_ERROR), s)
                  | Some u0 \<Rightarrow>
                      let u = u0\<lparr>is_verified := True\<rparr>;
                          s1 = s\<lparr>users := save_user u (users s)\<rparr>;
                          s2 = s1\<lparr>email_verification_tokens :=
                                   delete_row email_verification_token
                                     (email_verification_tokens s1)\<rparr>;
                          (refresh, s3) = for_user s2 now u;
                          (access, s4) = access_token s3 now refresh
                      in (Returned \<lparr>status = HTTP_200_OK,
                                    body = SuccessBody ''Email verified successfully''
                                      [(''refresh'', TokenField (Encoded refresh)),
                                       (''access'', TokenField (Encoded access)),
                                       (''user'', TextField (email u))]\<rparr>, s4))
               else
                 (Returned (handle_exception_response ''EXPIRED_TOKEN''
                    ''Invalid or expired verification token.'' None HTTP_400_BAD_REQUEST), s)))"

text \<open>
  \<open>reset_password\<close>. \<open>data\<close> is what \<open>PasswordResetSerializer\<close> (not among the
  sources) validates the payload to: the token string and the new password, or nothing
  when validation fails. The lookup is by \<open>request.user\<close> and token string. For the
  anonymous user, who is no model instance, the lookup raises \<open>TypeError\<close>, which the
  view's \<open>except TypeError\<close> clause answers. The \<open>except DoesNotExist\<close> clause passes
  the variable \<open>e\<close> to the error response; \<open>e\<close> is bound only by the \<open>as e\<close> of other
  clauses, so reading it there raises \<open>UnboundLocalError\<close>, inside a handler, where
  no later clause of the same \<open>try\<close> catches it.
\<close>

definition reset_password ::
  "state \<Rightarrow> time \<Rightarrow> request_user \<Rightarrow> (string \<times> string) option \<Rightarrow> outcome \<times> state" where
  "reset_password s now ru data =
     (case data of
        None \<Rightarrow>
          (Returned (handle_exception_response ''VALIDATION_ERROR'' ''Validation Failed''
             (Some ValidationError) HTTP_400_BAD_REQUEST), s)
      | Some (password_reset_token, new_password) \<Rightarrow>
          (case ru of
             AnonymousUser \<Rightarrow>
               (Returned (handle_exception_response ''VALIDATION_ERROR'' ''Validation Failed''
                  (Some TypeError) HTTP_400_BAD_REQUEST), s)
           | AuthUser u \<Rightarrow>
               (case objects_get (\<lambda>r. user r = uid u \<and> token r = password_reset_token)
                       (password_reset_tokens s) of
                  Inl DoesNotExist \<Rightarrow> (Raised UnboundLocalError, s)
                | Inl TypeError \<Rightarrow>
                    (Returned (handle_exception_response ''VALIDATION_ERROR''
                       ''Validation Failed'' (Some TypeError) HTTP_400_BAD_REQUEST), s)
                | Inl e \<Rightarrow>
                    (Returned (handle_exception_response ''INTERNAL_SERVER_ERROR''
                       ''An internal server error occurred'' (Some e)
                       HTTP_500_INTERNAL_SERVER_ERROR), s)
                | Inr token_obj \<Rightarrow>
                    if created_at token_obj + timedelta_hours 24 > now then
                      (Returned \<lparr>status = HTTP_204_NO_CONTENT, body = NoBody\<rparr>,
                       s\<lparr>users := save_user (set_password u new_password) (users s),
                         password_reset_tokens :=
                           delete_row token_obj (password_reset_tokens s)\<rparr>)
                    else
                      (Returned (handle_exception_response ''INVALID_TOKEN''
                         ''Password reset token has expired.'' None HTTP_400_BAD_REQUEST), s))))"

text \<open>
  Modelled from the spec: \<open>AuthUserSerializer\<close> is not among the sources. Its
  validated data is the account whose credentials match, through the Credential
  Hasher's verify; bad credentials are a \<open>ValidationError\<close>.
\<close>

definition AuthUserSerializer :: "state \<Rightarrow> string \<Rightarrow> string \<Rightarrow> exn + account" where
  "AuthUserSerializer s e pw =
     (case find (\<lambda>a. email a = e) (users s) of
        None \<Rightarrow> Inl ValidationError
      | Some a \<Rightarrow> if check_password pw (password a) then Inr a else Inl ValidationError)"

text \<open>
  \<open>login\<close>: validate, issue the refresh token for the account, then test
  \<open>is_verified\<close>; the access token is derived only when the success response is built.
\<close>

definition login :: "state \<Rightarrow> time \<Rightarrow> string \<Rightarrow> string \<Rightarrow> outcome \<times> state" where
  "login s now e pw =
     (case AuthUserSerializer s e pw of
        Inl err \<Rightarrow>
          (Returned (handle_exception_response ''VALIDATION_ERROR'' ''Validation Failed''
             (Some err) HTTP_400_BAD_REQUEST), s)
      | Inr u \<Rightarrow>
          let (refresh, s1) = for_user s now u in
          if \<not> is_verified u then
            (Returned (handle_exception_response ''NOT_VERIFIED''
               ''User's email is not verified.'' None HTTP_400_BAD_REQUEST), s1)
          else
            let (access, s2) = access_token s1 now refresh in
            (Returned (handle_success_response ''Login successful.''
               [(''refresh'', TokenField (Encoded refresh)),
                (''access'', TokenField (Encoded access))]), s2))"

text \<open>
  Modelled from the spec: \<open>token_generator_and_check_if_exists\<close> (accounts/utils.py)
  is not among the sources. It draws candidate strings until one is found that no
  unexpired row of the table carries. \<open>candidates\<close> are the random draws; when they
  are used up the loop has not ended.
\<close>

fun token_generator_and_check_if_exists ::
  "time \<Rightarrow> ott_row list \<Rightarrow> string list \<Rightarrow> string option" where
  "token_generator_and_check_if_exists now rows [] = None"
| "token_generator_and_check_if_exists now rows (c # cs) =
     (if list_ex (\<lambda>r. token r = c \<and> created_at r + timedelta_hours 24 > now) rows
      then token_generator_and_check_if_exists now rows cs
      else Some c)"

definition fresh_uid :: "account list \<Rightarrow> nat" where
  "fresh_uid us = Suc (fold max (map uid us) 0)"

text \<open>
  \<open>register\<close>. Modelled from the spec: \<open>UserRegisterSerializer\<close> is not among the
  sources; \<open>data\<close> is the payload after its field checks (e-mail, password, profile
  fields; nothing when they fail), an e-mail already registered is a
  \<open>ValidationError\<close>, and \<open>save\<close> creates the unverified account.
\<close>

definition register ::
  "state \<Rightarrow> time \<Rightarrow> (string \<times> string \<times> string) option \<Rightarrow> string list \<Rightarrow> outcome \<times> state" where
  "register s now data candidates =
     (case data of
        None \<Rightarrow>
          (Returned (handle_exception_response ''VALIDATION_ERROR'' ''Validation Failed''
             (Some ValidationError) HTTP_400_BAD_REQUEST), s)
      | Some (e, pw, prof) \<Rightarrow>
          if list_ex (\<lambda>a. email a = e) (users s) then
            (Returned (handle_exception_response ''VALIDATION_ERROR'' ''Validation Failed''
               (Some ValidationError) HTTP_400_BAD_REQUEST), s)
          else
            let u = \<lparr>uid = fresh_uid (users s), email = e, password = make_password pw,
                     is_verified = False, profile = prof\<rparr>;
                s1 = s\<lparr>users := users s @ [u]\<rparr>;
                (refresh, s2) = for_user s1 now u
            in (case token_generator_and_check_if_exists now
                       (email_verification_tokens s2) candidates of
                  None \<Rightarrow> (NoReturn, s2)
                | Some email_verification_token \<Rightarrow>
                    let s3 = s2\<lparr>email_verification_tokens :=
                                  objects_create now email_verification_token (uid u)
                                    (email_verification_tokens s2)\<rparr>;
                        (access, s4) = access_token s3 now refresh
                    in (Returned (handle_success_response ''User registered successfully.''
                          [(''refresh'', TokenField (Encoded refresh)),
                           (''access'', TokenField (Encoded access)),
                           (''email_verification_token'',
                            TextField email_verification_token)]), s4)))"

text \<open>Modelled from the spec: \<open>AccountProfileSerializer\<close> is not among the sources; it
  renders the profile fields, without the password hash.\<close>

definition AccountProfileSerializer_data :: "account \<Rightarrow> (string \<times> field) list" where
  "AccountProfileSerializer_data a =
     [(''email'', TextField (email a)), (''profile'', TextField (profile a))]"

definition get_profile :: "state \<Rightarrow> account \<Rightarrow> outcome \<times> state" where
  "get_profile s ru =
     (case objects_get (\<lambda>a. email a = email ru) (users s) of
        Inl DoesNotExist \<Rightarrow>
          (Returned (handle_exception_response ''USER_NOT_FOUND'' ''User not found'' None
             HTTP_404_NOT_FOUND), s)
      | Inl e \<Rightarrow>
          (Returned (handle_exception_response ''INTERNAL_SERVER_ERROR''
             ''An internal server error occurred'' (Some e)
             HTTP_500_INTERNAL_SERVER_ERROR), s)
      | Inr prof \<Rightarrow>
          (Returned (handle_success_response ''User profile retrieved successfully.''
             (AccountProfileSerializer_data prof)), s))"

text \<open>
  \<open>update_profile\<close>: \<open>data\<close> is the validated partial update (nothing when validation
  fails). The view has no clause for \<open>ValidationError\<close>, so the general clause
  answers it.
\<close>

definition update_profile :: "state \<Rightarrow> account \<Rightarrow> string option \<Rightarrow> outcome \<times> state" where
  "update_profile s ru data =
     (case objects_get (\<lambda>a. email a = email ru) (users s) of
        Inl DoesNotExist \<Rightarrow>
          (Returned (handle_exception_response ''USER_NOT_FOUND'' ''User not found'' None
             HTTP_404_NOT_FOUND), s)
      | Inl e \<Rightarrow>
          (Returned (handle_exception_response ''INTERNAL_SERVER_ERROR''
             ''An internal server error occurred'' (Some e)
             HTTP_500_INTERNAL_SERVER_ERROR), s)
      | Inr prof \<Rightarrow>
          (case data of
             None \<Rightarrow>
               (Returned (handle_exception_response ''INTERNAL_SERVER_ERROR''
                  ''An internal server error occurred'' (Some ValidationError)
                  HTTP_500_INTERNAL_SERVER_ERROR), s)
           | Some new_profile \<Rightarrow>
               let prof' = prof\<lparr>profile := new_profile\<rparr> in
               (Returned (handle_success_response ''User profile updated successfully.''
                  (AccountProfileSerializer_data prof')),
                s\<lparr>users := save_user prof' (users s)\<rparr>)))"

definition change_password :: "state \<Rightarrow> account \<Rightarrow> string option \<Rightarrow> outcome \<times> state" where
  "change_password s ru data =
     (case data of
        None \<Rightarrow>
          (Returned (handle_exception_response ''VALIDATION_ERROR'' ''Validation Failed''
             (Some ValidationError) HTTP_400_BAD_REQUEST), s)
      | Some new_password \<Rightarrow>
          (Returned \<lparr>status = HTTP_204_NO_CONTENT, body = NoBody\<rparr>,
           s\<lparr>users := save_user (set_password ru new_password) (users s)\<rparr>))"

text \<open>
  The two \<open>except\<close> clauses of \<open>logout\<close>: \<open>TokenError\<close> is answered with
  \<open>INVALID_REFRESH_TOKEN\<close>, every other exception with \<open>INTERNAL_SERVER_ERROR\<close>.
\<close>

definition logout_except :: "exn \<Rightarrow> response" where
  "logout_except e =
     (case e of
        TokenError \<Rightarrow>
          handle_exception_response ''INVALID_REFRESH_TOKEN'' ''Invalid or expired token''
            (Some e) HTTP_400_BAD_REQUEST
      | _ \<Rightarrow>
          handle_exception_response ''INTERNAL_SERVER_ERROR''
            ''An internal server error occurred'' (Some e) HTTP_500_INTERNAL_SERVER_ERROR)"

text \<open>
  The block \<open>if refresh_token: token = RefreshToken(refresh_token); token.blacklist()\<close>:
  the constructor may raise \<open>TokenError\<close>; otherwise the identifier is blacklisted.
\<close>

definition logout_refresh_block :: "state \<Rightarrow> time \<Rightarrow> token_str option \<Rightarrow> exn + state" where
  "logout_refresh_block s now refresh_token =
     (case refresh_token of
        None \<Rightarrow> Inr s
      | Some t \<Rightarrow>
          if truthy refresh_token then
            (case decode s now Refresh t of
               Inl e \<Rightarrow> Inl e
             | Inr tok \<Rightarrow> Inr (blacklist s tok))
          else Inr s)"

text \<open>
  The block \<open>if access_token: token = AccessToken(access_token); token.blacklist()\<close>:
  the constructor may raise \<open>TokenError\<close>; otherwise \<open>token.blacklist()\<close> raises
  \<open>AttributeError\<close>. The block changes nothing; its result is the exception raised,
  if any.
\<close>

definition logout_access_block :: "time \<Rightarrow> token_str option \<Rightarrow> exn option" where
  "logout_access_block now access_token_param =
     (case access_token_param of
        None \<Rightarrow> None
      | Some t \<Rightarrow>
          if truthy access_token_param then
            (case AccessToken now t of
               Inl e \<Rightarrow> Some e
             | Inr tok \<Rightarrow> Some AttributeError)
          else None)"

text \<open>
  \<open>logout\<close>: the refresh block, the access block, then the block for the case that
  neither was supplied. That block issues a refresh token for the current user and
  derives its access token, and \<open>tokens.access_token.blacklist()\<close> raises
  \<open>AttributeError\<close> before \<open>tokens.blacklist()\<close> is reached. What was recorded before
  an exception stays recorded. The success response is reached only when no block
  raised.
\<close>

definition logout ::
  "state \<Rightarrow> time \<Rightarrow> account \<Rightarrow> token_str option \<Rightarrow> token_str option \<Rightarrow> outcome \<times> state" where
  "logout s now ru refresh_token access_token_param =
     (case logout_refresh_block s now refresh_token of
        Inl e \<Rightarrow> (Returned (logout_except e), s)
      | Inr s1 \<Rightarrow>
          (case logout_access_block now access_token_param of
             Some e \<Rightarrow> (Returned (logout_except e), s1)
           | None \<Rightarrow>
               if \<not> truthy refresh_token \<and> \<not> truthy access_token_param then
                 let (tokens, sa) = for_user s1 now ru;
                     (access, sb) = access_token sa now tokens
                 in (Returned (logout_except AttributeError), sb)
               else
                 (Returned (handle_success_response ''Successfully logged out.'' []), s1)))"

text \<open>Modelled from the spec: \<open>PasswordResetTokenSerializer\<close> is not among the sources;
  it is taken to require a non-empty e-mail.\<close>

definition PasswordResetTokenSerializer :: "string option \<Rightarrow> exn + string" where
  "PasswordResetTokenSerializer e =
     (case e of None \<Rightarrow> Inl ValidationError
      | Some x \<Rightarrow> if x = [] then Inl ValidationError else Inr x)"

text \<open>\<open>send_password_reset_token\<close>: the serializer check stands before the \<open>try\<close>, and
  the \<open>try\<close> has a clause for \<open>DoesNotExist\<close> only.\<close>

definition send_password_reset_token ::
  "state \<Rightarrow> time \<Rightarrow> string option \<Rightarrow> string list \<Rightarrow> outcome \<times> state" where
  "send_password_reset_token s now email_param candidates =
     (case PasswordResetTokenSerializer email_param of
        Inl e \<Rightarrow> (Raised e, s)
      | Inr e \<Rightarrow>
          (case objects_get (\<lambda>a. email a = e) (users s) of
             Inl DoesNotExist \<Rightarrow>
               (Returned (handle_exception_response ''USER_NOT_FOUND'' ''User not found''
                  None HTTP_404_NOT_FOUND), s)
           | Inl err \<Rightarrow> (Raised err, s)
           | Inr u \<Rightarrow>
               (case token_generator_and_check_if_exists now
                       (password_reset_tokens s) candidates of
                  None \<Rightarrow> (NoReturn, s)
                | Some password_reset_token \<Rightarrow>
                    (Returned (handle_success_response
                       ''Password reset token sent to your email.''
                       [(''token'', TextField password_reset_token)]),
                     s\<lparr>password_reset_tokens :=
                         objects_create now password_reset_token (uid u)
                           (password_reset_tokens s)\<rparr>))))"

text \<open>
  \<open>refresh_token\<close>: \<open>data\<close> is the validated \<open>refresh\<close> field
  (\<open>RefreshTokenRequestSerializer\<close> is not among the sources), nothing when validation
  fails; the \<open>try\<close> has a clause for \<open>TokenError\<close> only.
\<close>

definition refresh_token :: "state \<Rightarrow> time \<Rightarrow> token_str option \<Rightarrow> outcome \<times> state" where
  "refresh_token s now data =
     (case data of
        None \<Rightarrow> (Raised ValidationError, s)
      | Some t \<Rightarrow>
          (case decode s now Refresh t of
             Inl e \<Rightarrow>
               (Returned (handle_exception_response ''INVALID_REFRESH_TOKEN''
                  ''Invalid or expired refresh token'' (Some e) HTTP_400_BAD_REQUEST), s)
           | Inr tok \<Rightarrow>
               let (access, s1) = access_token s now tok in
               (Returned (handle_success_response ''Access token successfully refreshed.''
                  [(''token'', TokenField (Encoded access))]), s1)))"

section \<open>Permissions and dispatch\<close>

datatype permission = AllowAny | IsAuthenticated

datatype request =
    Login string string
  | Register "(string \<times> string \<times> string) option" "string list"
  | Verify_email "string option"
  | Get_profile
  | Update_profile "string option"
  | Change_password "string option"
  | Logout "token_str option" "token_str option"
  | Send_password_reset_token "string option" "string list"
  | Reset_password "(string \<times> string) option"
  | Refresh_token "token_str option"

fun get_permissions :: "request \<Rightarrow> permission" where
  "get_permissions (Login _ _) = AllowAny"
| "get_permissions (Register _ _) = AllowAny"
| "get_permissions (Verify_email _) = AllowAny"
| "get_permissions (Reset_password _) = AllowAny"
| "get_permissions (Send_password_reset_token _ _) = AllowAny"
| "get_permissions (Change_password _) = IsAuthenticated"
| "get_permissions Get_profile = IsAuthenticated"
| "get_permissions (Update_profile _) = IsAuthenticated"
| "get_permissions (Refresh_token _) = IsAuthenticated"
| "get_permissions (Logout _ _) = IsAuthenticated"

text \<open>
  One request: the permission of the action is checked against \<open>request.user\<close>
  (an anonymous caller of a protected action is refused before the view runs), then
  the view runs.
\<close>

fun dispatch :: "state \<Rightarrow> time \<Rightarrow> request_user \<Rightarrow> request \<Rightarrow> outcome \<times> state" where
  "dispatch s now ru (Login e pw) = login s now e pw"
| "dispatch s now ru (Register d cs) = register s now d cs"
| "dispatch s now ru (Verify_email t) = verify_email s now t"
| "dispatch s now ru (Reset_password d) = reset_password s now ru d"
| "dispatch s now ru (Send_password_reset_token e cs) = send_password_reset_token s now e cs"
| "dispatch s now AnonymousUser _ = (Raised NotAuthenticated, s)"
| "dispatch s now (AuthUser u) (Change_password d) = change_password s u d"
| "dispatch s now (AuthUser u) Get_profile = get_profile s u"
| "dispatch s now (AuthUser u) (Update_profile d) = update_profile s u d"
| "dispatch s now (AuthUser u) (Refresh_token d) = refresh_token s now d"
| "dispatch s now (AuthUser u) (Logout r a) = logout s now u r a"


section \<open>Observations on outcomes, and example data\<close>

text \<open>The status code of a returned response, and the error code of an error response.\<close>

fun status_of :: "outcome \<Rightarrow> nat option" where
  "status_of (Returned r) = Some (status r)"
| "status_of _ = None"

fun error_code_of :: "outcome \<Rightarrow> string option" where
  "error_code_of (Returned r) = (case body r of ErrorBody c _ _ \<Rightarrow> Some c | _ \<Rightarrow> None)"
| "error_code_of _ = None"

text \<open>
  Example data: an unverified account with one e-mail verification token and one
  password reset token, both created at time 0, and a verified account.
\<close>

definition alice :: account where
  "alice = \<lparr>uid = 1, email = ''a@x.com'', password = make_password ''Passw0rd!'',
            is_verified = False, profile = ''Alice''\<rparr>"

definition bob :: account where
  "bob = \<lparr>uid = 2, email = ''b@x.com'', password = make_password ''hunter22'',
          is_verified = True, profile = ''Bob''\<rparr>"

definition demo_state :: state where
  "demo_state =
     \<lparr>users = [alice, bob],
      email_verification_tokens = [\<lparr>pk = 1, token = ''evt-1'', user = 1, created_at = 0\<rparr>],
      password_reset_tokens = [\<lparr>pk = 1, token = ''prt-1'', user = 1, created_at = 0\<rparr>],
      outstanding = [],
      blacklisted = {},
      jti_counter = 0,
      access_lifetime = timedelta_minutes 5,
      refresh_lifetime = timedelta_hours 24\<rparr>"


text \<open>Two tokens of the verified account, and a short history of requests.\<close>

definition bob_refresh :: payload where
  "bob_refresh = \<lparr>token_type = Refresh, jti = 7, user_id = 2, exp = timedelta_hours 24\<rparr>"

definition bob_access :: payload where
  "bob_access = \<lparr>token_type = Access, jti = 8, user_id = 2, exp = timedelta_minutes 5\<rparr>"


section \<open>Lookup, deletion and the two branches of the 24-hour test\<close>

lemma verify_email_expired:
  assumes "objects_get (\<lambda>r. token r = t) (email_verification_tokens s) = Inr row"
    and "t \<noteq> []" and "created_at row + timedelta_hours 24 \<le> now"
  shows "verify_email s now (Some t) =
     (Returned (handle_exception_response ''EXPIRED_TOKEN''
        ''Invalid or expired verification token.'' None HTTP_400_BAD_REQUEST), s)"
  using assms by (simp add: verify_email_def EmailVerificationSerializer_def)

lemma reset_password_expired:
  assumes "objects_get (\<lambda>r. user r = uid u \<and> token r = t) (password_reset_tokens s) = Inr row"
    and "created_at row + timedelta_hours 24 \<le> now"
  shows "reset_password s now (AuthUser u) (Some (t, np)) =
     (Returned (handle_exception_response ''INVALID_TOKEN''
        ''Password reset token has expired.'' None HTTP_400_BAD_REQUEST), s)"
  using assms by (simp add: reset_password_def)


lemma objects_get_Inr_mem: "objects_get P rows = Inr r \<Longrightarrow> r \<in> set rows \<and> P r"
proof -
  assume "objects_get P rows = Inr r"
  then have "filter P rows = [r]"
    by (auto simp: objects_get_def split: list.splits)
  then have "r \<in> set (filter P rows)" by simp
  then show ?thesis by simp
qed

lemma objects_get_deleted:
  assumes "objects_get P rows = Inr r"
  shows "objects_get P (delete_row r rows) = Inl DoesNotExist"
proof -
  from assms have f: "filter P rows = [r]"
    by (auto simp: objects_get_def split: list.splits)
  have "filter P (delete_row r rows) = filter (\<lambda>x. pk x \<noteq> pk r) (filter P rows)"
    unfolding delete_row_def by (induction rows) auto
  with f have "filter P (delete_row r rows) = []" by simp
  then show ?thesis by (simp add: objects_get_def)
qed

lemma verify_email_fresh:
  assumes "objects_get (\<lambda>r. token r = t) (email_verification_tokens s) = Inr row"
    and "t \<noteq> []" and "related_user s row = Some a"
    and "now < created_at row + timedelta_hours 24"
  shows "verify_email s now (Some t) =
     (let u = a\<lparr>is_verified := True\<rparr>;
          s2 = s\<lparr>users := save_user u (users s),
                 email_verification_tokens := delete_row row (email_verification_tokens s)\<rparr>;
          (refresh, s3) = for_user s2 now u;
          (access, s4) = access_token s3 now refresh
      in (Returned \<lparr>status = HTTP_200_OK,
                    body = SuccessBody ''Email verified successfully''
                      [(''refresh'', TokenField (Encoded refresh)),
                       (''access'', TokenField (Encoded access)),
                       (''user'', TextField (email u))]\<rparr>, s4))"
  using assms by (simp add: verify_email_def EmailVerificationSerializer_def Let_def)

lemma reset_password_fresh:
  assumes "objects_get (\<lambda>r. user r = uid u \<and> token r = t) (password_reset_tokens s) = Inr row"
    and "now < created_at row + timedelta_hours 24"
  shows "reset_password s now (AuthUser u) (Some (t, np)) =
     (Returned \<lparr>status = HTTP_204_NO_CONTENT, body = NoBody\<rparr>,
      s\<lparr>users := save_user (set_password u np) (users s),
        password_reset_tokens := delete_row row (password_reset_tokens s)\<rparr>)"
  using assms by (simp add: reset_password_def)


section \<open>Single use of one-time tokens\<close>

text \<open>
  After a successful \<open>verify_email\<close> the row is gone, so presenting the same token
  string again is answered with \<open>INVALID_TOKEN\<close>.
\<close>

lemma verify_email_single_use:
  assumes "objects_get (\<lambda>r. token r = t) (email_verification_tokens s) = Inr row"
    and "t \<noteq> []" and "related_user s row = Some a"
    and "now < created_at row + timedelta_hours 24"
  shows "fst (verify_email (snd (verify_email s now (Some t))) now' (Some t)) =
     Returned (handle_exception_response ''INVALID_TOKEN''
        ''Invalid or expired verification token.'' None HTTP_400_BAD_REQUEST)"
proof -
  have "email_verification_tokens (snd (verify_email s now (Some t))) =
      delete_row row (email_verification_tokens s)"
    using verify_email_fresh [OF assms]
    by (simp add: Let_def for_user_def access_token_def)
  then have "objects_get (\<lambda>r. token r = t)
      (email_verification_tokens (snd (verify_email s now (Some t)))) = Inl DoesNotExist"
    using objects_get_deleted [OF assms(1)] by simp
  then show ?thesis
    using assms(2) by (simp add: verify_email_def EmailVerificationSerializer_def)
qed

text \<open>
  Claim C1 (one-time tokens cannot be consumed twice; the second call returns
  \<open>INVALID_TOKEN\<close>), evaluated for \<open>reset_password\<close>: the first call with the account's
  token answers 204 and deletes the row; the second call with the same token finds no
  row, enters the \<open>DoesNotExist\<close> clause and raises \<open>UnboundLocalError\<close> there instead
  of returning the \<open>INVALID_TOKEN\<close> response.
\<close>

theorem reset_password_second_use_raises:
  "fst (reset_password demo_state 5 (AuthUser alice) (Some (''prt-1'', ''N3wPassw0rd!''))) =
     Returned \<lparr>status = 204, body = NoBody\<rparr> \<and>
   fst (reset_password
          (snd (reset_password demo_state 5 (AuthUser alice) (Some (''prt-1'', ''N3wPassw0rd!''))))
          6 (AuthUser alice) (Some (''prt-1'', ''N3wPassw0rd!''))) = Raised UnboundLocalError"
  by (simp add: reset_password_def objects_get_def demo_state_def alice_def timedelta_hours_def
      delete_row_def HTTP_204_NO_CONTENT_def)


section \<open>The 24-hour window\<close>

text \<open>The success branch of \<open>verify_email\<close>, with the issued pair and the new state
  written out.\<close>

lemma verify_email_fresh_explicit:
  assumes "objects_get (\<lambda>r. token r = t) (email_verification_tokens s) = Inr ev"
    and "t \<noteq> []" and "related_user s ev = Some a"
    and "n < created_at ev + timedelta_hours 24"
  shows "verify_email s n (Some t) =
         (Returned \<lparr>status = HTTP_200_OK,
            body = SuccessBody ''Email verified successfully''
              [(''refresh'', TokenField (Encoded
                  \<lparr>token_type = Refresh, jti = jti_counter s, user_id = uid a,
                   exp = n + refresh_lifetime s\<rparr>)),
               (''access'', TokenField (Encoded
                  \<lparr>token_type = Access, jti = Suc (jti_counter s), user_id = uid a,
                   exp = n + access_lifetime s\<rparr>)),
               (''user'', TextField (email a))]\<rparr>,
          s\<lparr>users := save_user (a\<lparr>is_verified := True\<rparr>) (users s),
            email_verification_tokens := delete_row ev (email_verification_tokens s),
            outstanding := outstanding s @ [(jti_counter s, uid a)],
            jti_counter := Suc (Suc (jti_counter s))\<rparr>)"
  using verify_email_fresh [OF assms]
  by (simp add: Let_def for_user_def access_token_def)

text \<open>
  Claim C2: a one-time token created at time T is accepted by \<open>verify_email\<close> and by
  \<open>reset_password\<close> at every time strictly before T + 24h, and rejected at T + 24h01m
  or later; in particular it is accepted at T + 23h59m and rejected at T + 24h01m.
  Accepted means that the success branch is taken: \<open>verify_email\<close> sets and saves the
  flag, deletes the row, issues the pair and answers 200 with it; \<open>reset_password\<close>
  stores the hash of the new password, deletes the row and answers 204. Rejected means
  the error response (\<open>EXPIRED_TOKEN\<close>, respectively \<open>INVALID_TOKEN\<close>, status 400) with
  the storage unchanged. The token is the one row its lookup finds.
\<close>

theorem one_time_token_window:
  "(objects_get (\<lambda>r. token r = t) (email_verification_tokens s) = Inr ev \<and> t \<noteq> [] \<and>
      related_user s ev = Some a \<longrightarrow>
      (now < created_at ev + timedelta_hours 24 \<longrightarrow>
         verify_email s now (Some t) =
         (Returned \<lparr>status = HTTP_200_OK,
            body = SuccessBody ''Email verified successfully''
              [(''refresh'', TokenField (Encoded
                  \<lparr>token_type = Refresh, jti = jti_counter s, user_id = uid a,
                   exp = now + refresh_lifetime s\<rparr>)),
               (''access'', TokenField (Encoded
                  \<lparr>token_type = Access, jti = Suc (jti_counter s), user_id = uid a,
                   exp = now + access_lifetime s\<rparr>)),
               (''user'', TextField (email a))]\<rparr>,
          s\<lparr>users := save_user (a\<lparr>is_verified := True\<rparr>) (users s),
            email_verification_tokens := delete_row ev (email_verification_tokens s),
            outstanding := outstanding s @ [(jti_counter s, uid a)],
            jti_counter := Suc (Suc (jti_counter s))\<rparr>)) \<and>
      (created_at ev + timedelta_hours 24 + timedelta_minutes 1 \<le> now \<longrightarrow>
         verify_email s now (Some t) =
         (Returned (handle_exception_response ''EXPIRED_TOKEN''
           ''Invalid or expired verification token.'' None HTTP_400_BAD_REQUEST), s)) \<and>
      verify_email s (created_at ev + timedelta_hours 23 + timedelta_minutes 59) (Some t) =
         (Returned \<lparr>status = HTTP_200_OK,
            body = SuccessBody ''Email verified successfully''
              [(''refresh'', TokenField (Encoded
                  \<lparr>token_type = Refresh, jti = jti_counter s, user_id = uid a,
                   exp = (created_at ev + timedelta_hours 23 + timedelta_minutes 59) + refresh_lifetime s\<rparr>)),
               (''access'', TokenField (Encoded
                  \<lparr>token_type = Access, jti = Suc (jti_counter s), user_id = uid a,
                   exp = (created_at ev + timedelta_hours 23 + timedelta_minutes 59) + access_lifetime s\<rparr>)),
               (''user'', TextField (email a))]\<rparr>,
          s\<lparr>users := save_user (a\<lparr>is_verified := True\<rparr>) (users s),
            email_verification_tokens := delete_row ev (email_verification_tokens s),
            outstanding := outstanding s @ [(jti_counter s, uid a)],
            jti_counter := Suc (Suc (jti_counter s))\<rparr>) \<and>
      verify_email s (created_at ev + timedelta_hours 24 + timedelta_minutes 1) (Some t) =
         (Returned (handle_exception_response ''EXPIRED_TOKEN''
           ''Invalid or expired verification token.'' None HTTP_400_BAD_REQUEST), s)) \<and>
   (objects_get (\<lambda>r. user r = uid u \<and> token r = t') (password_reset_tokens s) = Inr pr \<longrightarrow>
      (now < created_at pr + timedelta_hours 24 \<longrightarrow>
         reset_password s now (AuthUser u) (Some (t', np)) =
         (Returned \<lparr>status = HTTP_204_NO_CONTENT, body = NoBody\<rparr>,
          s\<lparr>users := save_user (u\<lparr>password := make_password np\<rparr>) (users s),
            password_reset_tokens := delete_row pr (password_reset_tokens s)\<rparr>)) \<and>
      (created_at pr + timedelta_hours 24 + timedelta_minutes 1 \<le> now \<longrightarrow>
         reset_password s now (AuthUser u) (Some (t', np)) =
         (Returned (handle_exception_response ''INVALID_TOKEN''
           ''Password reset token has expired.'' None HTTP_400_BAD_REQUEST), s)) \<and>
      reset_password s (created_at pr + timedelta_hours 23 + timedelta_minutes 59) (AuthUser u) (Some (t', np)) =
         (Returned \<lparr>status = HTTP_204_NO_CONTENT, body = NoBody\<rparr>,
          s\<lparr>users := save_user (u\<lparr>password := make_password np\<rparr>) (users s),
            password_reset_tokens := delete_row pr (password_reset_tokens s)\<rparr>) \<and>
      reset_password s (created_at pr + timedelta_hours 24 + timedelta_minutes 1) (AuthUser u) (Some (t', np)) =
         (Returned (handle_exception_response ''INVALID_TOKEN''
           ''Password reset token has expired.'' None HTTP_400_BAD_REQUEST), s))"
proof -
  have early: "x + timedelta_hours 23 + timedelta_minutes 59 < x + timedelta_hours 24"
    and late: "x + timedelta_hours 24 \<le> x + timedelta_hours 24 + timedelta_minutes 1" for x
    by (simp_all add: timedelta_hours_def timedelta_minutes_def)
  have late': "x + timedelta_hours 24 \<le> n" if "x + timedelta_hours 24 + timedelta_minutes 1 \<le> n"
    for x n
    using that late [of x] by simp
  show ?thesis
  proof (intro conjI impI)
    assume h: "objects_get (\<lambda>r. token r = t) (email_verification_tokens s) = Inr ev \<and> t \<noteq> [] \<and>
      related_user s ev = Some a"
    then have g: "objects_get (\<lambda>r. token r = t) (email_verification_tokens s) = Inr ev"
      and t: "t \<noteq> []" and r: "related_user s ev = Some a"
      by simp_all
    {
      assume "now < created_at ev + timedelta_hours 24"
      from verify_email_fresh_explicit [OF g t r this]
      show "verify_email s now (Some t) =
         (Returned \<lparr>status = HTTP_200_OK,
            body = SuccessBody ''Email verified successfully''
              [(''refresh'', TokenField (Encoded
                  \<lparr>token_type = Refresh, jti = jti_counter s, user_id = uid a,
                   exp = now + refresh_lifetime s\<rparr>)),
               (''access'', TokenField (Encoded
                  \<lparr>token_type = Access, jti = Suc (jti_counter s), user_id = uid a,
                   exp = now + access_lifetime s\<rparr>)),
               (''user'', TextField (email a))]\<rparr>,
          s\<lparr>users := save_user (a\<lparr>is_verified := True\<rparr>) (users s),
            email_verification_tokens := delete_row ev (email_verification_tokens s),
            outstanding := outstanding s @ [(jti_counter s, uid a)],
            jti_counter := Suc (Suc (jti_counter s))\<rparr>)" .
    }
    {
      assume "created_at ev + timedelta_hours 24 + timedelta_minutes 1 \<le> now"
      from verify_email_expired [OF g t late' [OF this]]
      show "verify_email s now (Some t) =
         (Returned (handle_exception_response ''EXPIRED_TOKEN''
           ''Invalid or expired verification token.'' None HTTP_400_BAD_REQUEST), s)" .
    }
    from verify_email_fresh_explicit [OF g t r early]
    show "verify_email s (created_at ev + timedelta_hours 23 + timedelta_minutes 59) (Some t) =
         (Returned \<lparr>status = HTTP_200_OK,
            body = SuccessBody ''Email verified successfully''
              [(''refresh'', TokenField (Encoded
                  \<lparr>token_type = Refresh, jti = jti_counter s, user_id = uid a,
                   exp = (created_at ev + timedelta_hours 23 + timedelta_minutes 59) + refresh_lifetime s\<rparr>)),
               (''access'', TokenField (Encoded
                  \<lparr>token_type = Access, jti = Suc (jti_counter s), user_id = uid a,
                   exp = (created_at ev + timedelta_hours 23 + timedelta_minutes 59) + access_lifetime s\<rparr>)),
               (''user'', TextField (email a))]\<rparr>,
          s\<lparr>users := save_user (a\<lparr>is_verified := True\<rparr>) (users s),
            email_verification_tokens := delete_row ev (email_verification_tokens s),
            outstanding := outstanding s @ [(jti_counter s, uid a)],
            jti_counter := Suc (Suc (jti_counter s))\<rparr>)" .
    from verify_email_expired [OF g t late]
    show "verify_email s (created_at ev + timedelta_hours 24 + timedelta_minutes 1) (Some t) =
         (Returned (handle_exception_response ''EXPIRED_TOKEN''
           ''Invalid or expired verification token.'' None HTTP_400_BAD_REQUEST), s)" .
  next
    assume g: "objects_get (\<lambda>r. user r = uid u \<and> token r = t') (password_reset_tokens s) =
      Inr pr"
    {
      assume "now < created_at pr + timedelta_hours 24"
      from reset_password_fresh [OF g this]
      show "reset_password s now (AuthUser u) (Some (t', np)) =
         (Returned \<lparr>status = HTTP_204_NO_CONTENT, body = NoBody\<rparr>,
          s\<lparr>users := save_user (u\<lparr>password := make_password np\<rparr>) (users s),
            password_reset_tokens := delete_row pr (password_reset_tokens s)\<rparr>)"
        by (simp add: set_password_def)
    }
    {
      assume "created_at pr + timedelta_hours 24 + timedelta_minutes 1 \<le> now"
      from reset_password_expired [OF g late' [OF this]]
      show "reset_password s now (AuthUser u) (Some (t', np)) =
         (Returned (handle_exception_response ''INVALID_TOKEN''
           ''Password reset token has expired.'' None HTTP_400_BAD_REQUEST), s)" .
    }
    from reset_password_fresh [OF g early]
    show "reset_password s (created_at pr + timedelta_hours 23 + timedelta_minutes 59) (AuthUser u) (Some (t', np)) =
         (Returned \<lparr>status = HTTP_204_NO_CONTENT, body = NoBody\<rparr>,
          s\<lparr>users := save_user (u\<lparr>password := make_password np\<rparr>) (users s),
            password_reset_tokens := delete_row pr (password_reset_tokens s)\<rparr>)"
      by (simp add: set_password_def)
    from reset_password_expired [OF g late]
    show "reset_password s (created_at pr + timedelta_hours 24 + timedelta_minutes 1) (AuthUser u) (Some (t', np)) =
         (Returned (handle_exception_response ''INVALID_TOKEN''
           ''Password reset token has expired.'' None HTTP_400_BAD_REQUEST), s)" .
  qed
qed

text \<open>
  Witness for C2 on the example data, at 23h59m and at 24h01m after creation: at the
  earlier time the account is verified, respectively has the new password hash, and
  the row is gone; at the later time nothing has changed.
\<close>

theorem one_time_token_window_witness:
  "objects_get (\<lambda>r. token r = ''evt-1'') (email_verification_tokens demo_state) =
     Inr \<lparr>pk = 1, token = ''evt-1'', user = 1, created_at = 0\<rparr> \<and>
   related_user demo_state \<lparr>pk = 1, token = ''evt-1'', user = 1, created_at = 0\<rparr> = Some alice \<and>
   objects_get (\<lambda>r. user r = uid alice \<and> token r = ''prt-1'') (password_reset_tokens demo_state) =
     Inr \<lparr>pk = 1, token = ''prt-1'', user = 1, created_at = 0\<rparr> \<and>
   verify_email demo_state (timedelta_hours 23 + timedelta_minutes 59) (Some ''evt-1'') =
     (Returned \<lparr>status = 200,
        body = SuccessBody ''Email verified successfully''
          [(''refresh'', TokenField (Encoded
              \<lparr>token_type = Refresh, jti = 0, user_id = 1,
               exp = timedelta_hours 23 + timedelta_minutes 59 + timedelta_hours 24\<rparr>)),
           (''access'', TokenField (Encoded
              \<lparr>token_type = Access, jti = 1, user_id = 1,
               exp = timedelta_hours 23 + timedelta_minutes 59 + timedelta_minutes 5\<rparr>)),
           (''user'', TextField ''a@x.com'')]\<rparr>,
      demo_state\<lparr>users := [alice\<lparr>is_verified := True\<rparr>, bob],
        email_verification_tokens := [],
        outstanding := [(0, 1)], jti_counter := 2\<rparr>) \<and>
   verify_email demo_state (timedelta_hours 24 + timedelta_minutes 1) (Some ''evt-1'') =
     (Returned \<lparr>status = 400, body = ErrorBody ''EXPIRED_TOKEN''
        ''Invalid or expired verification token.'' None\<rparr>, demo_state) \<and>
   reset_password demo_state (timedelta_hours 23 + timedelta_minutes 59)
      (AuthUser alice) (Some (''prt-1'', ''N3wPassw0rd!'')) =
     (Returned \<lparr>status = 204, body = NoBody\<rparr>,
      demo_state\<lparr>users := [alice\<lparr>password := make_password ''N3wPassw0rd!''\<rparr>, bob],
        password_reset_tokens := []\<rparr>) \<and>
   reset_password demo_state (timedelta_hours 24 + timedelta_minutes 1)
      (AuthUser alice) (Some (''prt-1'', ''N3wPassw0rd!'')) =
     (Returned \<lparr>status = 400, body = ErrorBody ''INVALID_TOKEN''
        ''Password reset token has expired.'' None\<rparr>, demo_state)"
proof -
  have a: "objects_get (\<lambda>r. token r = ''evt-1'') (email_verification_tokens demo_state) =
     Inr \<lparr>pk = 1, token = ''evt-1'', user = 1, created_at = 0\<rparr>"
    by (simp add: objects_get_def demo_state_def)
  have b: "related_user demo_state \<lparr>pk = 1, token = ''evt-1'', user = 1, created_at = 0\<rparr> =
     Some alice"
    by (simp add: related_user_def demo_state_def alice_def)
  have c: "objects_get (\<lambda>r. user r = uid alice \<and> token r = ''prt-1'')
      (password_reset_tokens demo_state) =
     Inr \<lparr>pk = 1, token = ''prt-1'', user = 1, created_at = 0\<rparr>"
    by (simp add: objects_get_def demo_state_def alice_def)
  have d: "save_user (alice\<lparr>is_verified := True\<rparr>) (users demo_state) =
      [alice\<lparr>is_verified := True\<rparr>, bob]"
    "save_user (alice\<lparr>password := make_password ''N3wPassw0rd!''\<rparr>) (users demo_state) =
      [alice\<lparr>password := make_password ''N3wPassw0rd!''\<rparr>, bob]"
    "delete_row \<lparr>pk = 1, token = ''evt-1'', user = 1, created_at = 0\<rparr>
       (email_verification_tokens demo_state) = []"
    "delete_row \<lparr>pk = 1, token = ''prt-1'', user = 1, created_at = 0\<rparr>
       (password_reset_tokens demo_state) = []"
    by (simp_all add: save_user_def delete_row_def demo_state_def alice_def bob_def)
  have e: "uid alice = 1" "email alice = ''a@x.com''" "jti_counter demo_state = 0"
    "outstanding demo_state = []" "refresh_lifetime demo_state = timedelta_hours 24"
    "access_lifetime demo_state = timedelta_minutes 5"
    by (simp_all add: alice_def demo_state_def)
  show ?thesis
    using a b c
      one_time_token_window [of "''evt-1''" demo_state
        "\<lparr>pk = 1, token = ''evt-1'', user = 1, created_at = 0\<rparr>"
        alice 0 alice "''prt-1''" "\<lparr>pk = 1, token = ''prt-1'', user = 1, created_at = 0\<rparr>"
        "''N3wPassw0rd!''"]
    by (simp add: d e handle_exception_response_def HTTP_200_OK_def HTTP_204_NO_CONTENT_def
        HTTP_400_BAD_REQUEST_def delete_row_def)
      (simp add: demo_state_def)
qed

section \<open>The expired branch changes nothing\<close>

text \<open>
  Claim C9: when a one-time token is presented 24 hours or more after its creation,
  the view rejects it and leaves the storage as it was: after the expired branch of
  \<open>verify_email\<close> the token row still exists and no \<open>is_verified\<close> flag has changed;
  after the expired branch of \<open>reset_password\<close> the token row still exists and no
  password hash has changed.
\<close>

theorem expired_token_frame:
  "(objects_get (\<lambda>r. token r = t) (email_verification_tokens s) = Inr ev \<and> t \<noteq> [] \<and>
      created_at ev + timedelta_hours 24 \<le> now \<longrightarrow>
      error_code_of (fst (verify_email s now (Some t))) = Some ''EXPIRED_TOKEN'' \<and>
      snd (verify_email s now (Some t)) = s \<and>
      ev \<in> set (email_verification_tokens (snd (verify_email s now (Some t)))) \<and>
      map is_verified (users (snd (verify_email s now (Some t)))) = map is_verified (users s)) \<and>
   (objects_get (\<lambda>r. user r = uid u \<and> token r = t') (password_reset_tokens s) = Inr pr \<and>
      created_at pr + timedelta_hours 24 \<le> now \<longrightarrow>
      error_code_of (fst (reset_password s now (AuthUser u) (Some (t', np)))) =
        Some ''INVALID_TOKEN'' \<and>
      snd (reset_password s now (AuthUser u) (Some (t', np))) = s \<and>
      pr \<in> set (password_reset_tokens (snd (reset_password s now (AuthUser u) (Some (t', np))))) \<and>
      map password (users (snd (reset_password s now (AuthUser u) (Some (t', np))))) =
        map password (users s))"
proof (intro conjI impI)
  assume h: "objects_get (\<lambda>r. token r = t) (email_verification_tokens s) = Inr ev \<and> t \<noteq> [] \<and>
      created_at ev + timedelta_hours 24 \<le> now"
  then have e: "verify_email s now (Some t) =
     (Returned (handle_exception_response ''EXPIRED_TOKEN''
        ''Invalid or expired verification token.'' None HTTP_400_BAD_REQUEST), s)"
    by (simp add: verify_email_expired)
  from h have "objects_get (\<lambda>r. token r = t) (email_verification_tokens s) = Inr ev"
    by simp
  from objects_get_Inr_mem [OF this] have mem: "ev \<in> set (email_verification_tokens s)"
    by simp
  show "error_code_of (fst (verify_email s now (Some t))) = Some ''EXPIRED_TOKEN''"
    by (simp add: e handle_exception_response_def)
  show "snd (verify_email s now (Some t)) = s" by (simp add: e)
  show "ev \<in> set (email_verification_tokens (snd (verify_email s now (Some t))))"
    by (simp add: e mem)
  show "map is_verified (users (snd (verify_email s now (Some t)))) = map is_verified (users s)"
    by (simp add: e)
next
  assume h: "objects_get (\<lambda>r. user r = uid u \<and> token r = t') (password_reset_tokens s) = Inr pr \<and>
      created_at pr + timedelta_hours 24 \<le> now"
  then have e: "reset_password s now (AuthUser u) (Some (t', np)) =
     (Returned (handle_exception_response ''INVALID_TOKEN''
        ''Password reset token has expired.'' None HTTP_400_BAD_REQUEST), s)"
    by (simp add: reset_password_expired)
  from h have "objects_get (\<lambda>r. user r = uid u \<and> token r = t') (password_reset_tokens s) = Inr pr"
    by simp
  from objects_get_Inr_mem [OF this] have mem: "pr \<in> set (password_reset_tokens s)"
    by simp
  show "error_code_of (fst (reset_password s now (AuthUser u) (Some (t', np)))) =
        Some ''INVALID_TOKEN''"
    by (simp add: e handle_exception_response_def)
  show "snd (reset_password s now (AuthUser u) (Some (t', np))) = s" by (simp add: e)
  show "pr \<in> set (password_reset_tokens (snd (reset_password s now (AuthUser u) (Some (t', np)))))"
    by (simp add: e mem)
  show "map password (users (snd (reset_password s now (AuthUser u) (Some (t', np))))) =
        map password (users s)"
    by (simp add: e)
qed

text \<open>Witness for C9 on the example data, 25 hours after creation.\<close>

theorem expired_token_frame_witness:
  "objects_get (\<lambda>r. token r = ''evt-1'') (email_verification_tokens demo_state) =
     Inr \<lparr>pk = 1, token = ''evt-1'', user = 1, created_at = 0\<rparr> \<and>
   objects_get (\<lambda>r. user r = uid alice \<and> token r = ''prt-1'') (password_reset_tokens demo_state) =
     Inr \<lparr>pk = 1, token = ''prt-1'', user = 1, created_at = 0\<rparr> \<and>
   snd (verify_email demo_state (timedelta_hours 25) (Some ''evt-1'')) = demo_state \<and>
   snd (reset_password demo_state (timedelta_hours 25) (AuthUser alice)
     (Some (''prt-1'', ''N3wPassw0rd!''))) = demo_state"
proof -
  have a: "objects_get (\<lambda>r. token r = ''evt-1'') (email_verification_tokens demo_state) =
     Inr \<lparr>pk = 1, token = ''evt-1'', user = 1, created_at = 0\<rparr>"
    by (simp add: objects_get_def demo_state_def)
  have c: "objects_get (\<lambda>r. user r = uid alice \<and> token r = ''prt-1'')
      (password_reset_tokens demo_state) =
     Inr \<lparr>pk = 1, token = ''prt-1'', user = 1, created_at = 0\<rparr>"
    by (simp add: objects_get_def demo_state_def alice_def)
  have d: "(0::int) + timedelta_hours 24 \<le> timedelta_hours 25"
    by (simp add: timedelta_hours_def)
  show ?thesis
    using a c d
      expired_token_frame [of "''evt-1''" demo_state "\<lparr>pk = 1, token = ''evt-1'', user = 1, created_at = 0\<rparr>"
        "timedelta_hours 25" alice "''prt-1''"
        "\<lparr>pk = 1, token = ''prt-1'', user = 1, created_at = 0\<rparr>" "''N3wPassw0rd!''"]
    by simp
qed

section \<open>The error codes of reset_password's token failures\<close>

text \<open>
  Claim C8 (\<open>reset_password\<close> fails with the \<open>ExpiredToken\<close> kind when the caller's
  token is older than 24 hours, and with the \<open>InvalidToken\<close> kind when no token
  matches), evaluated on the example data: 25 hours after creation the caller's own
  token is answered with the error code \<open>INVALID_TOKEN\<close> under the message that the
  token has expired, where the expired branch of \<open>verify_email\<close> answers
  \<open>EXPIRED_TOKEN\<close>; and a token string that matches no row raises
  \<open>UnboundLocalError\<close> instead of returning the \<open>INVALID_TOKEN\<close> response.
\<close>

theorem reset_password_token_failures:
  "fst (reset_password demo_state (timedelta_hours 25) (AuthUser alice)
      (Some (''prt-1'', ''N3wPassw0rd!''))) =
     Returned \<lparr>status = 400,
               body = ErrorBody ''INVALID_TOKEN'' ''Password reset token has expired.'' None\<rparr> \<and>
   fst (verify_email demo_state (timedelta_hours 25) (Some ''evt-1'')) =
     Returned \<lparr>status = 400,
               body = ErrorBody ''EXPIRED_TOKEN'' ''Invalid or expired verification token.''
                 None\<rparr> \<and>
   fst (reset_password demo_state 5 (AuthUser alice)
      (Some (''no-such-token'', ''N3wPassw0rd!''))) = Raised UnboundLocalError"
  by (simp add: reset_password_def verify_email_def EmailVerificationSerializer_def
      objects_get_def demo_state_def alice_def timedelta_hours_def
      handle_exception_response_def HTTP_400_BAD_REQUEST_def)

section \<open>Permissions at dispatch\<close>

text \<open>An anonymous caller of a view whose permission is \<open>IsAuthenticated\<close> is refused
  before the view runs.\<close>

lemma dispatch_refuses_anonymous:
  "get_permissions rq = IsAuthenticated \<Longrightarrow>
   dispatch s now AnonymousUser rq = (Raised NotAuthenticated, s)"
  by (cases rq) simp_all

section \<open>Who can reset a password\<close>

text \<open>The three ways \<open>reset_password\<close> ends without a matching, unexpired row of the
  caller.\<close>

lemma reset_password_no_match:
  assumes "objects_get (\<lambda>r. user r = uid u \<and> token r = t) (password_reset_tokens s) =
     Inl DoesNotExist"
  shows "reset_password s now (AuthUser u) (Some (t, np)) = (Raised UnboundLocalError, s)"
  using assms by (simp add: reset_password_def)

lemma reset_password_anonymous:
  "reset_password s now AnonymousUser d =
     (Returned (handle_exception_response ''VALIDATION_ERROR'' ''Validation Failed''
        (Some (case d of None \<Rightarrow> ValidationError | Some _ \<Rightarrow> TypeError))
        HTTP_400_BAD_REQUEST), s)"
  by (simp add: reset_password_def split: option.splits)

lemma reset_password_success_owner:
  assumes "status_of (fst (reset_password s now ru d)) = Some HTTP_204_NO_CONTENT"
  shows "\<exists>u t np row. ru = AuthUser u \<and> d = Some (t, np) \<and>
           row \<in> set (password_reset_tokens s) \<and> user row = uid u \<and> token row = t \<and>
           now < created_at row + timedelta_hours 24"
proof (cases d)
  case None
  with assms show ?thesis
    by (simp add: reset_password_def handle_exception_response_def HTTP_400_BAD_REQUEST_def
        HTTP_204_NO_CONTENT_def)
next
  case (Some p)
  obtain t np where p: "p = (t, np)" by (cases p)
  show ?thesis
  proof (cases ru)
    case AnonymousUser
    with assms show ?thesis
      by (simp add: reset_password_anonymous handle_exception_response_def
          HTTP_400_BAD_REQUEST_def HTTP_204_NO_CONTENT_def)
  next
    case (AuthUser u)
    show ?thesis
    proof (cases "objects_get (\<lambda>r. user r = uid u \<and> token r = t) (password_reset_tokens s)")
      case (Inl e)
      with assms Some p AuthUser show ?thesis
        by (cases e)
          (simp_all add: reset_password_def handle_exception_response_def
            HTTP_400_BAD_REQUEST_def HTTP_204_NO_CONTENT_def HTTP_500_INTERNAL_SERVER_ERROR_def)
    next
      case (Inr row)
      from objects_get_Inr_mem [OF Inr]
      have mem: "row \<in> set (password_reset_tokens s)" "user row = uid u" "token row = t"
        by simp_all
      have "now < created_at row + timedelta_hours 24"
      proof (rule ccontr)
        assume "\<not> now < created_at row + timedelta_hours 24"
        then have "created_at row + timedelta_hours 24 \<le> now" by simp
        from reset_password_expired [OF Inr this] assms Some p AuthUser show False
          by (simp add: handle_exception_response_def
              HTTP_400_BAD_REQUEST_def HTTP_204_NO_CONTENT_def)
      qed
      with mem Some p AuthUser show ?thesis by blast
    qed
  qed
qed

text \<open>
  Counterexample to claim C10 as stated (every call by an unauthenticated caller fails
  with \<open>INVALID_TOKEN\<close>): an anonymous caller who presents the unexpired token of the
  example account is not answered with \<open>INVALID_TOKEN\<close>.
\<close>

theorem reset_password_anonymous_counterexample:
  "error_code_of (fst (dispatch demo_state 5 AnonymousUser
      (Reset_password (Some (''prt-1'', ''N3wPassw0rd!''))))) \<noteq> Some ''INVALID_TOKEN''"
  by (simp add: reset_password_def handle_exception_response_def)

text \<open>
  Claim C10, amended: \<open>reset_password\<close> is permitted for unauthenticated callers
  (\<open>AllowAny\<close>), but its lookup is by \<open>request.user\<close> and token string, so it succeeds
  (status 204) only when the caller is authenticated as the account that owns an
  unexpired row with that token; every call by an unauthenticated caller is answered
  with status 400 and the error code \<open>VALIDATION_ERROR\<close>, and changes nothing.
\<close>

theorem reset_password_scoped_to_caller:
  "get_permissions (Reset_password d) = AllowAny \<and>
   (status_of (fst (dispatch s now ru (Reset_password d))) = Some HTTP_204_NO_CONTENT \<longrightarrow>
      (\<exists>u t np row. ru = AuthUser u \<and> d = Some (t, np) \<and>
          row \<in> set (password_reset_tokens s) \<and> user row = uid u \<and> token row = t \<and>
          now < created_at row + timedelta_hours 24)) \<and>
   status_of (fst (dispatch s now AnonymousUser (Reset_password d))) = Some HTTP_400_BAD_REQUEST \<and>
   error_code_of (fst (dispatch s now AnonymousUser (Reset_password d))) =
     Some ''VALIDATION_ERROR'' \<and>
   snd (dispatch s now AnonymousUser (Reset_password d)) = s"
  using reset_password_success_owner [of s now ru d]
  by (simp add: reset_password_anonymous handle_exception_response_def)

text \<open>Witness for the amended C10: the example account resets its own password.\<close>

theorem reset_password_scoped_to_caller_witness:
  "status_of (fst (dispatch demo_state 5 (AuthUser alice)
      (Reset_password (Some (''prt-1'', ''N3wPassw0rd!''))))) = Some HTTP_204_NO_CONTENT \<and>
   (\<exists>u t np row. AuthUser alice = AuthUser u \<and>
      Some (''prt-1'', ''N3wPassw0rd!'') = Some (t, np) \<and>
      row \<in> set (password_reset_tokens demo_state) \<and> user row = uid u \<and> token row = t \<and>
      5 < created_at row + timedelta_hours 24)"
proof -
  have "status_of (fst (dispatch demo_state 5 (AuthUser alice)
      (Reset_password (Some (''prt-1'', ''N3wPassw0rd!''))))) = Some HTTP_204_NO_CONTENT"
    by (simp add: reset_password_def objects_get_def demo_state_def alice_def
        timedelta_hours_def)
  then show ?thesis
    using reset_password_scoped_to_caller [of "Some (''prt-1'', ''N3wPassw0rd!'')" demo_state 5 "AuthUser alice"]
    by blast
qed

section \<open>Refreshing an access token\<close>

text \<open>
  Claim C5: \<open>refresh_token\<close> given a refresh token that is blacklisted, expired or
  otherwise invalid (a token of the other kind, a string that does not verify) returns
  the \<open>INVALID_REFRESH_TOKEN\<close> error; given a valid one it returns an access token
  whose subject is the subject of the refresh token.
\<close>

theorem refresh_token_validates:
  "(jti p \<in> blacklisted s \<or> exp p < now \<or> token_type p \<noteq> Refresh \<longrightarrow>
      fst (refresh_token s now (Some (Encoded p))) =
        Returned (handle_exception_response ''INVALID_REFRESH_TOKEN''
          ''Invalid or expired refresh token'' (Some TokenError) HTTP_400_BAD_REQUEST)) \<and>
   fst (refresh_token s now (Some (Junk x))) =
     Returned (handle_exception_response ''INVALID_REFRESH_TOKEN''
       ''Invalid or expired refresh token'' (Some TokenError) HTTP_400_BAD_REQUEST) \<and>
   (token_type p = Refresh \<and> now \<le> exp p \<and> jti p \<notin> blacklisted s \<longrightarrow>
      (\<exists>a. fst (refresh_token s now (Some (Encoded p))) =
          Returned (handle_success_response ''Access token successfully refreshed.''
            [(''token'', TokenField (Encoded a))]) \<and>
        token_type a = Access \<and> user_id a = user_id p))"
  by (auto simp: refresh_token_def decode_def access_token_def)

text \<open>Witness for C5: a blacklisted, an expired and a valid refresh token.\<close>

theorem refresh_token_validates_witness:
  "jti bob_refresh \<in> blacklisted (blacklist demo_state bob_refresh) \<and>
   fst (refresh_token (blacklist demo_state bob_refresh) 5 (Some (Encoded bob_refresh))) =
     Returned \<lparr>status = 400, body = ErrorBody ''INVALID_REFRESH_TOKEN''
       ''Invalid or expired refresh token'' (Some TokenError)\<rparr> \<and>
   exp bob_refresh < timedelta_hours 25 \<and>
   fst (refresh_token demo_state (timedelta_hours 25) (Some (Encoded bob_refresh))) =
     Returned \<lparr>status = 400, body = ErrorBody ''INVALID_REFRESH_TOKEN''
       ''Invalid or expired refresh token'' (Some TokenError)\<rparr> \<and>
   token_type bob_refresh = Refresh \<and> 5 \<le> exp bob_refresh \<and>
   jti bob_refresh \<notin> blacklisted demo_state \<and>
   (\<exists>a. fst (refresh_token demo_state 5 (Some (Encoded bob_refresh))) =
       Returned (handle_success_response ''Access token successfully refreshed.''
         [(''token'', TokenField (Encoded a))]) \<and>
     token_type a = Access \<and> user_id a = user_id bob_refresh)"
proof -
  have a: "jti bob_refresh \<in> blacklisted (blacklist demo_state bob_refresh)"
    by (simp add: blacklist_def)
  have b: "exp bob_refresh < timedelta_hours 25"
    by (simp add: bob_refresh_def timedelta_hours_def)
  have c: "token_type bob_refresh = Refresh \<and> 5 \<le> exp bob_refresh \<and>
      jti bob_refresh \<notin> blacklisted demo_state"
    by (simp add: bob_refresh_def demo_state_def timedelta_hours_def)
  show ?thesis
    using a b c
      refresh_token_validates [of bob_refresh "blacklist demo_state bob_refresh" 5 "[]"]
      refresh_token_validates [of bob_refresh demo_state "timedelta_hours 25" "[]"]
      refresh_token_validates [of bob_refresh demo_state 5 "[]"]
    by (simp add: handle_exception_response_def HTTP_400_BAD_REQUEST_def)
qed

section \<open>Login of an unverified account\<close>

text \<open>
  Counterexample to claim C6 as stated (a refresh/access pair is minted before the
  verified-status check): on the example data the refused login consumes one token
  identifier, the one of the refresh token, where minting a pair consumes two; the
  state after the refused login is the state after \<open>RefreshToken.for_user\<close> alone, not
  the state after a pair has been minted.
\<close>

theorem login_unverified_pair_counterexample:
  "jti_counter (snd (login demo_state 5 ''a@x.com'' ''Passw0rd!'')) = 1 \<and>
   jti_counter (snd (access_token (snd (for_user demo_state 5 alice)) 5
      (fst (for_user demo_state 5 alice)))) = 2 \<and>
   snd (login demo_state 5 ''a@x.com'' ''Passw0rd!'') = snd (for_user demo_state 5 alice) \<and>
   snd (login demo_state 5 ''a@x.com'' ''Passw0rd!'') \<noteq>
     snd (access_token (snd (for_user demo_state 5 alice)) 5
       (fst (for_user demo_state 5 alice)))"
proof -
  have l: "snd (login demo_state 5 ''a@x.com'' ''Passw0rd!'') = snd (for_user demo_state 5 alice)"
    by (simp add: login_def AuthUserSerializer_def demo_state_def alice_def check_password_def
        for_user_def)
  have a: "jti_counter (snd (for_user demo_state 5 alice)) = 1"
    by (simp add: for_user_def demo_state_def)
  have b: "jti_counter (snd (access_token (snd (for_user demo_state 5 alice)) 5
      (fst (for_user demo_state 5 alice)))) = 2"
    by (simp add: for_user_def access_token_def demo_state_def)
  from a b have "snd (for_user demo_state 5 alice) \<noteq>
      snd (access_token (snd (for_user demo_state 5 alice)) 5 (fst (for_user demo_state 5 alice)))"
    by auto
  with l a b show ?thesis by simp
qed

text \<open>
  Claim C6, amended: in \<open>login\<close>, for valid credentials of an unverified account, the
  refresh token is minted by the token-issuing call \<open>RefreshToken.for_user\<close> before the
  verified-status check and is discarded on the not-verified path; no access token is
  derived on that path. The \<open>NOT_VERIFIED\<close> response carries no tokens, and the error
  path does not leave the token state unchanged: the state after it is the state
  after the issuing call, with one more outstanding refresh identifier.
\<close>

theorem login_unverified_issues_then_refuses:
  "AuthUserSerializer s e pw = Inr u \<Longrightarrow> \<not> is_verified u \<Longrightarrow>
   login s now e pw =
     (Returned (handle_exception_response ''NOT_VERIFIED'' ''User's email is not verified.''
        None HTTP_400_BAD_REQUEST),
      s\<lparr>outstanding := outstanding s @ [(jti_counter s, uid u)],
        jti_counter := Suc (jti_counter s)\<rparr>) \<and>
   snd (login s now e pw) = snd (for_user s now u) \<and>
   snd (login s now e pw) \<noteq> s \<and>
   snd (login s now e pw) \<noteq>
     snd (access_token (snd (for_user s now u)) now (fst (for_user s now u)))"
proof -
  assume a: "AuthUserSerializer s e pw = Inr u" "\<not> is_verified u"
  have l: "login s now e pw =
     (Returned (handle_exception_response ''NOT_VERIFIED'' ''User's email is not verified.''
        None HTTP_400_BAD_REQUEST), snd (for_user s now u))"
    using a by (simp add: login_def split: prod.splits)
  have f: "snd (for_user s now u) =
      s\<lparr>outstanding := outstanding s @ [(jti_counter s, uid u)],
        jti_counter := Suc (jti_counter s)\<rparr>"
    by (simp add: for_user_def)
  have "jti_counter (snd (for_user s now u)) \<noteq> jti_counter s"
    by (simp add: for_user_def)
  then have n: "snd (for_user s now u) \<noteq> s" by auto
  have "jti_counter (snd (access_token (snd (for_user s now u)) now (fst (for_user s now u)))) \<noteq>
      jti_counter (snd (for_user s now u))"
    by (simp add: for_user_def access_token_def)
  then have m: "snd (for_user s now u) \<noteq>
      snd (access_token (snd (for_user s now u)) now (fst (for_user s now u)))"
    by auto
  show ?thesis
    using l n m f by simp
qed

text \<open>Witness for the amended C6 on the example data.\<close>

theorem login_unverified_issues_then_refuses_witness:
  "AuthUserSerializer demo_state ''a@x.com'' ''Passw0rd!'' = Inr alice \<and> \<not> is_verified alice \<and>
   login demo_state 5 ''a@x.com'' ''Passw0rd!'' =
     (Returned \<lparr>status = 400,
        body = ErrorBody ''NOT_VERIFIED'' ''User's email is not verified.'' None\<rparr>,
      demo_state\<lparr>outstanding := [(0, 1)], jti_counter := 1\<rparr>)"
proof -
  have a: "AuthUserSerializer demo_state ''a@x.com'' ''Passw0rd!'' = Inr alice"
    by (simp add: AuthUserSerializer_def demo_state_def alice_def check_password_def)
  have b: "\<not> is_verified alice" by (simp add: alice_def)
  have c: "outstanding demo_state = []" "jti_counter demo_state = 0" "uid alice = 1"
    by (simp_all add: demo_state_def alice_def)
  show ?thesis
    using a b login_unverified_issues_then_refuses [OF a b, of 5]
    by (simp add: c handle_exception_response_def HTTP_400_BAD_REQUEST_def)
qed

section \<open>Blacklisting is permanent\<close>

text \<open>No view removes an identifier from the blacklist.\<close>

lemma blacklisted_for_user: "blacklisted (snd (for_user s now u)) = blacklisted s"
  by (simp add: for_user_def)

lemma blacklisted_access_token: "blacklisted (snd (access_token s now r)) = blacklisted s"
  by (simp add: access_token_def)

lemma blacklisted_blacklist: "blacklisted (blacklist s p) = insert (jti p) (blacklisted s)"
  by (simp add: blacklist_def)

















section \<open>What logout blacklists\<close>

text \<open>The paths of \<open>logout\<close>: a supplied refresh token alone, a supplied token that
  does not validate, a supplied access token, and neither.\<close>

lemma logout_refresh_only:
  assumes "truthy (Some rt)" and "decode s now Refresh rt = Inr rp" and "\<not> truthy a"
  shows "logout s now u (Some rt) a =
     (Returned (handle_success_response ''Successfully logged out.'' []), blacklist s rp)"
  using assms
  by (cases a) (simp_all add: logout_def logout_refresh_block_def logout_access_block_def)

lemma logout_invalid_refresh:
  assumes "truthy (Some rt)" and "decode s now Refresh rt = Inl TokenError"
  shows "logout s now u (Some rt) a =
     (Returned (handle_exception_response ''INVALID_REFRESH_TOKEN''
        ''Invalid or expired token'' (Some TokenError) HTTP_400_BAD_REQUEST), s)"
  using assms by (simp add: logout_def logout_refresh_block_def logout_except_def)

lemma logout_access_supplied:
  assumes "logout_refresh_block s now r = Inr s1" and "truthy (Some at)"
    and "AccessToken now at = Inr ap"
  shows "logout s now u r (Some at) =
     (Returned (handle_exception_response ''INTERNAL_SERVER_ERROR''
        ''An internal server error occurred'' (Some AttributeError)
        HTTP_500_INTERNAL_SERVER_ERROR), s1)"
  using assms by (simp add: logout_def logout_access_block_def logout_except_def)

lemma logout_neither:
  assumes "\<not> truthy r" and "\<not> truthy a"
  shows "logout s now u r a =
     (Returned (handle_exception_response ''INTERNAL_SERVER_ERROR''
        ''An internal server error occurred'' (Some AttributeError)
        HTTP_500_INTERNAL_SERVER_ERROR),
      s\<lparr>outstanding := outstanding s @ [(jti_counter s, uid u)],
        jti_counter := Suc (Suc (jti_counter s))\<rparr>)"
  using assms
  by (cases r; cases a)
    (simp_all add: logout_def logout_refresh_block_def logout_access_block_def
      logout_except_def for_user_def access_token_def)

text \<open>Whatever is supplied, \<open>logout\<close> blacklists at most the supplied refresh token.\<close>

lemma logout_blacklists_refresh_at_most:
  "blacklisted (snd (logout s now u r a)) = blacklisted s \<or>
   (\<exists>rp. r = Some (Encoded rp) \<and>
      blacklisted (snd (logout s now u r a)) = insert (jti rp) (blacklisted s))"
proof (cases "logout_refresh_block s now r")
  case (Inl e)
  then show ?thesis by (simp add: logout_def)
next
  case (Inr s1)
  then have b: "blacklisted s1 = blacklisted s \<or>
      (\<exists>rp. r = Some (Encoded rp) \<and> blacklisted s1 = insert (jti rp) (blacklisted s))"
    by (cases r)
      (auto simp: logout_refresh_block_def decode_def blacklist_def
        split: if_splits sum.splits token_str.splits)
  have "blacklisted (snd (logout s now u r a)) = blacklisted s1"
    using Inr
    by (cases "logout_access_block now a")
      (simp_all add: logout_def for_user_def access_token_def)
  with b show ?thesis by simp
qed

text \<open>
  Claim C7 (\<open>logout\<close> blacklists a supplied access token, and with nothing supplied
  blacklists both members of a fresh pair, and then returns the success response),
  evaluated on the example data. With a valid access token supplied, \<open>logout\<close> answers
  500 \<open>INTERNAL_SERVER_ERROR\<close> and blacklists nothing: \<open>token.blacklist()\<close> on an access
  token raises \<open>AttributeError\<close>. With nothing supplied it issues the refresh token,
  derives the access token, and answers 500 in the same way, with nothing blacklisted.
  With both supplied the refresh token is blacklisted and the answer is 500. Only a
  refresh token supplied alone is blacklisted and answered with the success response.
\<close>

theorem logout_access_token_raises:
  "logout demo_state 5 bob None (Some (Encoded bob_access)) =
     (Returned \<lparr>status = 500, body = ErrorBody ''INTERNAL_SERVER_ERROR''
        ''An internal server error occurred'' (Some AttributeError)\<rparr>, demo_state) \<and>
   logout demo_state 5 bob None None =
     (Returned \<lparr>status = 500, body = ErrorBody ''INTERNAL_SERVER_ERROR''
        ''An internal server error occurred'' (Some AttributeError)\<rparr>,
      demo_state\<lparr>outstanding := [(0, 2)], jti_counter := 2\<rparr>) \<and>
   logout demo_state 5 bob (Some (Encoded bob_refresh)) (Some (Encoded bob_access)) =
     (Returned \<lparr>status = 500, body = ErrorBody ''INTERNAL_SERVER_ERROR''
        ''An internal server error occurred'' (Some AttributeError)\<rparr>,
      demo_state\<lparr>blacklisted := {7}\<rparr>) \<and>
   logout demo_state 5 bob (Some (Encoded bob_refresh)) None =
     (Returned \<lparr>status = 200, body = SuccessBody ''Successfully logged out.'' []\<rparr>,
      demo_state\<lparr>blacklisted := {7}\<rparr>)"
  by (simp add: logout_def logout_refresh_block_def logout_access_block_def logout_except_def
      decode_def AccessToken_def blacklist_def for_user_def access_token_def
      handle_exception_response_def handle_success_response_def
      HTTP_200_OK_def HTTP_500_INTERNAL_SERVER_ERROR_def
      bob_refresh_def bob_access_def bob_def demo_state_def
      timedelta_hours_def timedelta_minutes_def)

section \<open>Login before and after verification\<close>






lemma AuthUserSerializer_cong:
  "users s' = users s \<Longrightarrow> AuthUserSerializer s' e pw = AuthUserSerializer s e pw"
  by (simp add: AuthUserSerializer_def)



end
